theory Spec2Isabelle
  imports Complex_Main
begin

section \<open>LOREM: the stabilized local-explanation pipeline of lore\_sa/lorem.py\<close>

text \<open>
  The theory embeds the functions of \<^verbatim>\<open>src/lore_sa/lorem.py\<close> that the
  specification talks about: the batch dispatcher, the locality weighting kernel, the two
  exemplar selectors and the run stabilizer \<^verbatim>\<open>explain_instance_stable\<close>.

  Conventions.
  \<^item> the entries of the data matrices are modelled as \<^typ>\<open>real\<close>; a numpy matrix is a
    list of rows of equal length. Distances, weights and the fidelity are values of the
    type \<open>npfloat\<close>, a real or NaN: where numpy computes \<open>0 / 0\<close> it does not raise, and
    the model carries the NaN on as the code does. Of the rounding of doubles only the
    underflow of \<^verbatim>\<open>np.exp\<close> is modelled; overflow to infinity and the rounding of the
    mantissa are not.
  \<^item> every raise of the Python code is a value \<open>Inl e\<close> of the result type.
  \<^item> a Python local that may be read before it is assigned is an \<open>option\<close>; reading
    \<open>None\<close> is the error \<open>NameError\<close> with the name of the variable.
  \<^item> the collaborators that are not part of lorem.py (black box, sampler, surrogate
    provider, encoder, discretizer, rule emitter, distance metric) are parameters.
\<close>

datatype error =
    Not_implemented
  | NameError string
  | ValueError
  | IndexError
  | ZeroDivisionError
  | Surrogate_mismatch

subsection \<open>Batch dispatcher: \<^verbatim>\<open>explain_set_instances_stable\<close> (lines 472--499)\<close>

text \<open>
  \<^verbatim>\<open>math.ceil(len(X) / float(n_workers))\<close>. The float division is exact enough for the
  ceiling to be the mathematical one for every list that fits in memory; the model uses
  the ceiling of the real quotient.
\<close>

definition items_for_worker :: "nat \<Rightarrow> nat \<Rightarrow> nat" where
  "items_for_worker len_X n_workers = nat \<lceil>real len_X / real n_workers\<rceil>"

text \<open>The Python slice \<^verbatim>\<open>X[start:end]\<close> for \<open>0 \<le> start\<close>, \<open>0 \<le> end\<close>.\<close>

definition slice :: "'a list \<Rightarrow> nat \<Rightarrow> nat \<Rightarrow> 'a list" where
  "slice X start end = take (end - start) (drop start X)"

text \<open>
  The dispatch loop \<^verbatim>\<open>for i in range(0, n_workers)\<close>. The state is the loop index,
  \<open>start\<close>, \<open>end\<close> and the list \<open>processes\<close>; a process is represented by the worker index
  and the chunk it was started with. The second component of the result is the local
  \<open>workers\<close>, which the code assigns only immediately before \<^verbatim>\<open>break\<close>.
\<close>

function dispatch_loop ::
  "'a list \<Rightarrow> nat \<Rightarrow> nat \<Rightarrow> nat \<Rightarrow> nat \<Rightarrow> nat \<Rightarrow> (nat \<times> 'a list) list
    \<Rightarrow> (nat \<times> 'a list) list \<times> nat option" where
  "dispatch_loop X n_workers items i start end processes =
     (if i < n_workers then
        (let processes' = processes @ [(i, slice X start end)] in
         if int end > int (length X) - 1 then (processes', Some (n_workers - 1))
         else dispatch_loop X n_workers items (i + 1) end (end + items) processes')
      else (processes, None))"
  by pat_completeness auto
termination
  by (relation "measure (\<lambda>(X, n_workers, items, i, start, end, processes). n_workers - i)") auto

declare dispatch_loop.simps [simp del]

text \<open>
  The join loop \<^verbatim>\<open>for i in range(0, workers): processes[i].join()\<close>: the indices joined
  so far, and the \<^verbatim>\<open>IndexError\<close> of \<^verbatim>\<open>processes[i]\<close> when \<open>i\<close> is out of range.
\<close>

fun join_loop :: "nat list \<Rightarrow> nat \<Rightarrow> nat list \<Rightarrow> nat list \<times> error option" where
  "join_loop [] n_processes joined = (joined, None)"
| "join_loop (i # rest) n_processes joined =
     (if i < n_processes then join_loop rest n_processes (joined @ [i])
      else (joined, Some IndexError))"

text \<open>
  What a run of the dispatcher did: the processes it started (in order, with their
  chunks), the indices of the processes it joined, and the exception it ended with, if
  any.
\<close>

record 'a batch_run =
  started :: "(nat \<times> 'a list) list"
  joined :: "nat list"
  raised :: "error option"

definition explain_set_instances_stable :: "'a list \<Rightarrow> nat \<Rightarrow> 'a batch_run" where
  "explain_set_instances_stable X n_workers =
     (if n_workers = 0 then \<lparr>started = [], joined = [], raised = Some ZeroDivisionError\<rparr>
      else
        (let items = items_for_worker (length X) n_workers;
             (processes, workers) = dispatch_loop X n_workers items 0 0 items []
         in case workers of
              None \<Rightarrow> \<lparr>started = processes, joined = [], raised = Some (NameError ''workers'')\<rparr>
            | Some w \<Rightarrow>
                (let (js, err) = join_loop [0..<w] (length processes) []
                 in \<lparr>started = processes, joined = js, raised = err\<rparr>)))"

definition chunks_of :: "'a list \<Rightarrow> nat \<Rightarrow> 'a list list" where
  "chunks_of X n_workers = map snd (started (explain_set_instances_stable X n_workers))"

subsection \<open>Locality weighting kernel (lines 39--40, 110--126)\<close>

type_synonym vec = "real list"
type_synonym matrix = "vec list"

text \<open>A numpy float as far as the weights need it: a real number or NaN.\<close>

datatype npfloat = NaN | Fin real

text \<open>
  \<^verbatim>\<open>np.exp\<close> on doubles: a result below half the least positive double, \<open>2 ^ -1075\<close>,
  is \<open>0.0\<close>.
\<close>

definition np_exp :: "real \<Rightarrow> real" where
  "np_exp x = (if exp x < 1 / 2 ^ 1075 then 0 else exp x)"

text \<open>
  \<^verbatim>\<open>np.sqrt(np.exp(-(d ** 2) / kernel_width ** 2))\<close>. A NaN distance gives a NaN weight.
  For \<open>kernel_width = 0\<close> numpy divides by zero without raising: the quotient is
  \<open>-inf\<close> and the weight \<open>0.0\<close>, except for \<open>d = 0\<close>, where it is \<open>0 / 0\<close> and the
  weight is NaN.
\<close>

definition default_kernel :: "npfloat \<Rightarrow> real \<Rightarrow> npfloat" where
  "default_kernel distance kernel_width =
     (case distance of
        NaN \<Rightarrow> NaN
      | Fin d \<Rightarrow>
          if kernel_width = 0 then (if d = 0 then NaN else Fin 0)
          else Fin (sqrt (np_exp (- (d ^ 2) / kernel_width ^ 2))))"

text \<open>
  The two defaults of \<^verbatim>\<open>__init__\<close> (lines 110--114): the width
  \<^verbatim>\<open>np.sqrt(len(self.feature_names)) * .75\<close> and the kernel \<^verbatim>\<open>default_kernel\<close>.
\<close>

definition init_kernel_width :: "real option \<Rightarrow> nat \<Rightarrow> real" where
  "init_kernel_width kernel_width n_feature_names =
     (case kernel_width of None \<Rightarrow> sqrt (real n_feature_names) * 0.75 | Some w \<Rightarrow> w)"

definition init_kernel ::
  "(npfloat \<Rightarrow> real \<Rightarrow> npfloat) option \<Rightarrow> npfloat \<Rightarrow> real \<Rightarrow> npfloat" where
  "init_kernel kernel_opt = (case kernel_opt of None \<Rightarrow> default_kernel | Some k \<Rightarrow> k)"

text \<open>
  \<^verbatim>\<open>cdist(XA, xb.reshape(1, -1), metric=metric).ravel()\<close>: the distance of every row of
  \<open>XA\<close> to the single row \<open>xb\<close>. The metric is the caller's.
\<close>

definition cdist_to :: "(vec \<Rightarrow> vec \<Rightarrow> real) \<Rightarrow> matrix \<Rightarrow> vec \<Rightarrow> real list" where
  "cdist_to metric XA xb = map (\<lambda>row. metric row xb) XA"

text \<open>\<^verbatim>\<open>(Z - np.min(Z)) / (np.max(Z) - np.min(Z))\<close>, entry by entry.\<close>

definition min_max_normalize :: "real \<Rightarrow> real \<Rightarrow> matrix \<Rightarrow> matrix" where
  "min_max_normalize mn mx Z = map (map (\<lambda>z. (z - mn) / (mx - mn))) Z"

text \<open>
  \<^verbatim>\<open>__calculate_weights__\<close>, in two steps. \<open>weight_distances\<close> is the value of the
  local \<open>distances\<close> after the \<^verbatim>\<open>if / else\<close> of lines 120--124. \<^verbatim>\<open>np.max\<close> and
  \<^verbatim>\<open>np.min\<close> range over all entries of \<open>Z\<close> and raise \<^verbatim>\<open>ValueError\<close> on a matrix
  without entries. When the matrix is normalized and all its entries are equal, numpy
  computes \<open>0 / 0\<close> for every entry without raising: every entry of \<open>Zn\<close> is NaN, and so
  is the distance of every row to the first (for a metric that computes with its
  arguments, as \<^verbatim>\<open>euclidean\<close> and \<^verbatim>\<open>neuclidean\<close> do).
\<close>

definition weight_distances ::
  "(vec \<Rightarrow> vec \<Rightarrow> real) \<Rightarrow> matrix \<Rightarrow> error + npfloat list" where
  "weight_distances metric Z =
     (case concat Z of
        [] \<Rightarrow> Inl ValueError
      | v # vs \<Rightarrow>
          (let mx = fold max vs v; mn = fold min vs v in
           if mx \<noteq> 1 \<and> mn \<noteq> 0 then
             (if mx - mn = 0 then Inr (map (\<lambda>row. NaN) Z)
              else
                (let Zn = min_max_normalize mn mx Z
                 in Inr (map Fin (cdist_to metric Zn (hd Zn)))))
           else Inr (map Fin (cdist_to metric Z (hd Z)))))"

text \<open>
  Lines 125--126: \<^verbatim>\<open>weights = self.kernel(distances)\<close>, where \<^verbatim>\<open>self.kernel\<close> is
  \<^verbatim>\<open>partial(kernel, kernel_width=kernel_width)\<close>, applied to each distance.
\<close>

definition calculate_weights ::
  "(npfloat \<Rightarrow> real \<Rightarrow> npfloat) \<Rightarrow> real \<Rightarrow> (vec \<Rightarrow> vec \<Rightarrow> real) \<Rightarrow> matrix
    \<Rightarrow> error + npfloat list" where
  "calculate_weights kernel_fn kernel_width metric Z =
     (case weight_distances metric Z of
        Inl e \<Rightarrow> Inl e
      | Inr distances \<Rightarrow> Inr (map (\<lambda>d. kernel_fn d kernel_width) distances))"




subsection \<open>Exemplar selectors (lines 356--470)\<close>

text \<open>\<^verbatim>\<open>cdist(..., metric='euclidean')\<close> for one pair of rows.\<close>

definition euclidean :: "vec \<Rightarrow> vec \<Rightarrow> real" where
  "euclidean u v = sqrt (\<Sum>(a, b)\<leftarrow>zip u v. (a - b) ^ 2)"

text \<open>
  \<^verbatim>\<open>distances.argsort()\<close>: the indices in ascending order of distance. numpy does not
  fix the order of equal distances; the model breaks ties by position, and no statement
  below depends on how ties are broken.
\<close>

definition argsort :: "real list \<Rightarrow> nat list" where
  "argsort ds = sort_key (\<lambda>i. ds ! i) [0..<length ds]"

text \<open>\<^verbatim>\<open>vals[argsort(distances)[:n]]\<close>: the first \<open>n\<close> rows in order of distance to \<open>x\<close>.\<close>

definition first_n_by_distance :: "vec \<Rightarrow> matrix \<Rightarrow> nat \<Rightarrow> matrix" where
  "first_n_by_distance x vals n =
     map (\<lambda>i. vals ! i) (take n (argsort (cdist_to euclidean vals x)))"

text \<open>
  \<^verbatim>\<open>x in exemplar_vals\<close> on a numpy matrix is \<^verbatim>\<open>(exemplar_vals == x).any()\<close>: some
  entry of some row equals the entry of \<open>x\<close> in the same column.
\<close>

definition np_contains :: "matrix \<Rightarrow> vec \<Rightarrow> bool" where
  "np_contains vals x = (\<exists>row \<in> set vals. \<exists>(a, b) \<in> set (zip row x). a = b)"

text \<open>
  Lines 379--384 and 447--454: when \<^verbatim>\<open>x in exemplar_vals\<close>, the rows with
  \<^verbatim>\<open>(exemplar_vals == x).all(axis=1)\<close> are deleted. Rows have the length of \<open>x\<close>, so
  that test is equality of the rows.
\<close>

definition remove_instance :: "matrix \<Rightarrow> vec \<Rightarrow> matrix" where
  "remove_instance exemplar_vals x =
     (if np_contains exemplar_vals x then filter (\<lambda>row. row \<noteq> x) exemplar_vals
      else exemplar_vals)"

text \<open>
  \<^verbatim>\<open>get_exemplars_cexemplars_binary\<close>. \<open>leaf\<close> is \<^verbatim>\<open>dt.apply\<close> on one row, \<open>K\<close> is
  the reference population (\<^verbatim>\<open>self.K\<close>, or the encoded copy of the dataset when an
  encoder is configured). The \<^verbatim>\<open>if / elif / else\<close> of lines 386--402 returns in each of
  its three branches, so lines 404--418 are never reached.
\<close>

definition get_exemplars_cexemplars_binary ::
  "(vec \<Rightarrow> 'leaf) \<Rightarrow> matrix \<Rightarrow> vec \<Rightarrow> nat \<Rightarrow> matrix option \<times> matrix option" where
  "get_exemplars_cexemplars_binary leaf K x n =
     (let leave_id_x = leaf x;
          exemplar_vals = filter (\<lambda>row. leaf row = leave_id_x) K;
          cexemplar_vals = filter (\<lambda>row. leaf row \<noteq> leave_id_x) K;
          exemplar_vals = remove_instance exemplar_vals x
      in if length exemplar_vals = 0 \<and> length cexemplar_vals = 0 then (None, None)
         else if length exemplar_vals = 0 then
           (let n = length cexemplar_vals
            in (None, Some (first_n_by_distance x cexemplar_vals n)))
         else
           (let n = length exemplar_vals
            in (Some (first_n_by_distance x exemplar_vals n), None)))"

text \<open>\<^verbatim>\<open>get_exemplars_cexemplars_supert\<close>: no early returns, always two matrices.\<close>

definition get_exemplars_cexemplars_supert ::
  "(vec \<Rightarrow> 'leaf) \<Rightarrow> matrix \<Rightarrow> vec \<Rightarrow> nat \<Rightarrow> matrix option \<times> matrix option" where
  "get_exemplars_cexemplars_supert leaf K x n =
     (let leave_id_x = leaf x;
          exemplar_vals = filter (\<lambda>row. leaf row = leave_id_x) K;
          cexemplar_vals = filter (\<lambda>row. leaf row \<noteq> leave_id_x) K;
          exemplar_vals = remove_instance exemplar_vals x;
          n = (if length exemplar_vals < n \<or> length cexemplar_vals < n
               then min (length cexemplar_vals) (length exemplar_vals) else n)
      in (Some (first_n_by_distance x exemplar_vals n),
          Some (first_n_by_distance x cexemplar_vals n)))"

subsection \<open>Run stabilizer: \<^verbatim>\<open>explain_instance_stable\<close> (lines 155--349)\<close>

type_synonym labels = "int list"
type_synonym sample_weight = "npfloat list option"

text \<open>
  \<^verbatim>\<open>self.binary\<close>: \<^verbatim>\<open>False\<close> (the default, the n-ary merge) or one of the three strings
  the code compares it with.
\<close>

datatype merge_mode = Not_binary | Binary_from_bb | Binary_from_dts | Binary_from_nari

record encoder =
  enc :: "vec \<Rightarrow> labels \<Rightarrow> vec"
  dec :: "matrix \<Rightarrow> matrix"

text \<open>
  The engine: the attributes of \<^verbatim>\<open>self\<close> that \<^verbatim>\<open>explain_instance_stable\<close> reads, and the
  collaborators it calls, as functions. \<open>'tree\<close> is the type of the surrogate trees,
  \<open>'r\<close> the type of what the rule emitter and the feature-importance methods return; the
  run stabilizer only passes these values on.
  \<^item> \<open>discretize\<close>: \<^verbatim>\<open>discr.fit(Z, Yb)\<close> followed by \<^verbatim>\<open>discr.transform\<close> is the function
    \<open>discr Z Yb\<close>.
  \<^item> \<open>learn_local_decision_tree\<close>: data, labels, weights and \<^verbatim>\<open>prune_tree\<close> (\<open>None\<close> when
    the call leaves it to the provider's default); the class values are the engine's.
  \<^item> \<open>prune_duplicate_leaves\<close> changes the tree in place; here it returns the changed tree.
  \<^item> \<open>tree_predict\<close>, \<open>tree_apply\<close>: \<^verbatim>\<open>dt.predict\<close> on a matrix, \<^verbatim>\<open>dt.apply\<close> on a row.
  \<^item> \<open>K\<close>: the reference population of the exemplar selectors.
\<close>

record ('tree, 'r) lorem =
  bb_predict :: "matrix \<Rightarrow> labels"
  encdec :: "encoder option"
  multi_generate :: "vec \<Rightarrow> nat \<Rightarrow> nat \<Rightarrow> matrix list"
  discretize :: "(matrix \<Rightarrow> labels \<Rightarrow> matrix \<Rightarrow> matrix) option"
  learn_local_decision_tree :: "matrix \<Rightarrow> labels \<Rightarrow> sample_weight \<Rightarrow> bool option \<Rightarrow> 'tree"
  prune_duplicate_leaves :: "'tree \<Rightarrow> 'tree"
  rec_buildTree :: "'tree \<Rightarrow> nat list \<Rightarrow> 'tree"
  mergeDecisionTrees :: "'tree list \<Rightarrow> nat \<Rightarrow> 'tree"
  supert2b :: "'tree \<Rightarrow> matrix \<Rightarrow> 'tree"
  tree_predict :: "'tree \<Rightarrow> matrix \<Rightarrow> labels"
  tree_apply :: "'tree \<Rightarrow> vec \<Rightarrow> nat"
  get_rule :: "vec \<Rightarrow> labels \<Rightarrow> 'tree \<Rightarrow> 'r"
  get_counterfactual_rules :: "vec \<Rightarrow> int \<Rightarrow> 'tree \<Rightarrow> matrix \<Rightarrow> labels \<Rightarrow> 'r \<times> 'r"
  get_feature_importance_binary :: "'tree \<Rightarrow> vec \<Rightarrow> 'r \<times> 'r"
  get_feature_importance_supert :: "'tree \<Rightarrow> vec \<Rightarrow> nat \<Rightarrow> 'r \<times> 'r"
  record2str :: "vec \<Rightarrow> string"
  K :: matrix
  feature_names :: "string list"
  kernel_fn :: "npfloat \<Rightarrow> real \<Rightarrow> npfloat"
  kernel_width :: real
  multi_label :: bool
  binary :: merge_mode
  extreme_fidelity :: bool

text \<open>\<^verbatim>\<open>np.nan_to_num\<close> replaces NaN by 0; a matrix of reals has none.\<close>

definition nan_to_num :: "matrix \<Rightarrow> matrix" where
  "nan_to_num Z = Z"

text \<open>The weights as reals, when none of them is NaN.\<close>

fun fin_values :: "npfloat list \<Rightarrow> real list option" where
  "fin_values [] = Some []"
| "fin_values (NaN # ws) = None"
| "fin_values (Fin r # ws) = (case fin_values ws of None \<Rightarrow> None | Some rs \<Rightarrow> Some (r # rs))"

text \<open>
  \<^verbatim>\<open>sklearn.metrics.accuracy_score(y_true, y_pred, sample_weight)\<close> as the library
  documents it: the fraction of positions where the labels agree, each position counted
  with its weight (\<^verbatim>\<open>np.average\<close>). Inputs of different lengths are a \<^verbatim>\<open>ValueError\<close>,
  weights that sum to zero a \<^verbatim>\<open>ZeroDivisionError\<close>. A NaN among the weights makes their
  sum NaN, which is not zero, and the result NaN; so is the mean of no samples.
\<close>

definition accuracy_score :: "labels \<Rightarrow> labels \<Rightarrow> sample_weight \<Rightarrow> error + npfloat" where
  "accuracy_score y_true y_pred sample_weight =
     (if length y_true \<noteq> length y_pred then Inl ValueError
      else
        (let score = map (\<lambda>(a, b). if a = b then 1 else 0) (zip y_true y_pred) in
         case sample_weight of
           None \<Rightarrow>
             if score = [] then Inr NaN
             else Inr (Fin (sum_list score / real (length score)))
         | Some wgt \<Rightarrow>
             if length wgt \<noteq> length score then Inl ValueError
             else
               (case fin_values wgt of
                  None \<Rightarrow> Inr NaN
                | Some w \<Rightarrow>
                    if sum_list w = 0 then Inl ZeroDivisionError
                    else Inr (Fin (sum_list (map (\<lambda>(s, wi). s * wi) (zip score w))
                                   / sum_list w)))))"

text \<open>
  \<^verbatim>\<open>superT.score(Z, Yb, sample_weight=weights)\<close> of a scikit-learn classifier is the
  accuracy of its own predictions on \<open>Z\<close> against \<open>Yb\<close>.
\<close>

definition tree_score ::
  "('tree, 'r) lorem \<Rightarrow> 'tree \<Rightarrow> matrix \<Rightarrow> labels \<Rightarrow> sample_weight \<Rightarrow> error + npfloat" where
  "tree_score eng t Z Yb weights = accuracy_score Yb (tree_predict eng t Z) weights"

text \<open>
  \<^verbatim>\<open>None if not use_weights else self.__calculate_weights__(Z, metric)\<close>.
\<close>

definition weights_or_none ::
  "('tree, 'r) lorem \<Rightarrow> bool \<Rightarrow> (vec \<Rightarrow> vec \<Rightarrow> real) \<Rightarrow> matrix \<Rightarrow> error + sample_weight" where
  "weights_or_none eng use_weights metric Z =
     (if \<not> use_weights then Inr None
      else
        (case calculate_weights (kernel_fn eng) (kernel_width eng) metric Z of
           Inl e \<Rightarrow> Inl e
         | Inr w \<Rightarrow> Inr (Some w)))"

text \<open>A loop that appends one result per element and stops at the first exception.\<close>

fun for_each :: "('a \<Rightarrow> error + 'b) \<Rightarrow> 'a list \<Rightarrow> error + 'b list" where
  "for_each f [] = Inr []"
| "for_each f (a # as) =
     (case f a of
        Inl e \<Rightarrow> Inl e
      | Inr b \<Rightarrow> (case for_each f as of Inl e \<Rightarrow> Inl e | Inr bs \<Rightarrow> Inr (b # bs)))"

text \<open>
  The value of a \<^verbatim>\<open>for\<close> loop's variable after the loop: the last element, or still
  unassigned when the list was empty.
\<close>

definition loop_var :: "'a list \<Rightarrow> 'a option" where
  "loop_var xs = (if xs = [] then None else Some (last xs))"

text \<open>
  \<^verbatim>\<open>np.concatenate(weights_list)\<close> (line 285): a \<^verbatim>\<open>ValueError\<close> for an empty list and
  for a list that holds \<^verbatim>\<open>None\<close> (weights switched off).
\<close>

fun concatenate_weights :: "sample_weight list \<Rightarrow> error + npfloat list" where
  "concatenate_weights [] = Inl ValueError"
| "concatenate_weights [w] = (case w of None \<Rightarrow> Inl ValueError | Some v \<Rightarrow> Inr v)"
| "concatenate_weights (w # ws) =
     (case w of
        None \<Rightarrow> Inl ValueError
      | Some v \<Rightarrow> (case concatenate_weights ws of Inl e \<Rightarrow> Inl e | Inr vs \<Rightarrow> Inr (v @ vs)))"

text \<open>
  The parameter \<^verbatim>\<open>single\<close> is fixed to its default \<^verbatim>\<open>False\<close> (the batch worker never
  sets it); \<^verbatim>\<open>n_jobs\<close> and \<^verbatim>\<open>kwargs\<close> do not influence the result, and the
  \<^verbatim>\<open>verbose\<close> printing is left out.

  Lines 176--178: with an encoder, \<open>y\<close> is assigned the black box's prediction for the
  instance and \<open>x\<close> is replaced by its encoding; without one, \<open>y\<close> stays unassigned.
\<close>

definition encode_instance :: "('tree, 'r) lorem \<Rightarrow> vec \<Rightarrow> labels option \<times> vec" where
  "encode_instance eng x =
     (case encdec eng of
        None \<Rightarrow> (None, x)
      | Some ed \<Rightarrow> (let y = bb_predict eng [x] in (Some y, enc ed x y)))"

text \<open>
  Lines 182--199: the black-box labels of every neighborhood. With an encoder the labels
  are those of the decoded neighborhood; \<open>Z_list\<close> itself keeps the encoded matrices.
\<close>

definition label_neighborhoods :: "('tree, 'r) lorem \<Rightarrow> matrix list \<Rightarrow> labels list" where
  "label_neighborhoods eng Z_list =
     (case encdec eng of
        Some ed \<Rightarrow> map (\<lambda>Z. bb_predict eng (nan_to_num (dec ed Z))) Z_list
      | None \<Rightarrow> map (\<lambda>Z. bb_predict eng Z) Z_list)"

text \<open>
  The locals that the merge step reads: \<open>Z_list\<close>, \<open>Yb_list\<close>, \<open>weights_list\<close>, and the
  two loop variables \<open>Z\<close> and \<open>Yb\<close>, which may be unassigned.
\<close>

record neighborhoods =
  nb_Z_list :: "matrix list"
  nb_Yb_list :: "labels list"
  nb_weights_list :: "sample_weight list"
  nb_Z :: "matrix option"
  nb_Yb :: "labels option"

text \<open>
  Lines 180--240. After the loop of lines 185--199 \<open>Yb\<close> is the label vector of the last
  neighborhood; the loop \<^verbatim>\<open>for Z in Z_list\<close> of lines 217--220 rebinds \<open>Z\<close>, so that after
  it \<open>Z\<close> is the last element of \<open>Z_list\<close>. Only with a discretizer (lines 226--240) are
  \<open>Z\<close> and \<open>Yb\<close> the concatenations over all neighborhoods; \<^verbatim>\<open>np.concatenate\<close> of an
  empty list is a \<^verbatim>\<open>ValueError\<close>.
\<close>

definition sample_neighborhoods ::
  "('tree, 'r) lorem \<Rightarrow> vec \<Rightarrow> nat \<Rightarrow> bool \<Rightarrow> (vec \<Rightarrow> vec \<Rightarrow> real) \<Rightarrow> nat
    \<Rightarrow> error + neighborhoods" where
  "sample_neighborhoods eng x samples use_weights metric runs =
     (let Z_list = multi_generate eng x samples runs;
          Yb_list = label_neighborhoods eng Z_list;
          Yb = loop_var Yb_list
      in case for_each (weights_or_none eng use_weights metric) Z_list of
           Inl e \<Rightarrow> Inl e
         | Inr weights_list \<Rightarrow>
             (let Z = loop_var Z_list in
              case discretize eng of
                None \<Rightarrow>
                  Inr \<lparr>nb_Z_list = Z_list, nb_Yb_list = Yb_list,
                       nb_weights_list = weights_list, nb_Z = Z, nb_Yb = Yb\<rparr>
              | Some discr \<Rightarrow>
                  if Z_list = [] then Inl ValueError
                  else
                    (let Z = concat Z_list;
                         Yb = concat Yb_list
                     in Inr \<lparr>nb_Z_list = map (discr Z Yb) Z_list, nb_Yb_list = Yb_list,
                             nb_weights_list = weights_list, nb_Z = Some Z, nb_Yb = Some Yb\<rparr>)))"

text \<open>
  What leaves the merge step: the merged tree \<open>superT\<close>, the fidelity, and the locals
  \<open>Z\<close> and \<open>Yb\<close> that the rest of the function reads.
\<close>

record 'tree merged =
  m_superT :: 'tree
  m_fidelity :: npfloat
  m_Z :: matrix
  m_Yb :: labels

text \<open>
  Lines 243--247 (\<^verbatim>\<open>binary_from_bb\<close>) and 264--268 (\<^verbatim>\<open>binary_from_dts\<close>): one tree
  learnt on \<open>Z\<close> and \<open>Yb\<close>, scored on the same data.
\<close>

definition fit_and_score ::
  "('tree, 'r) lorem \<Rightarrow> bool \<Rightarrow> (vec \<Rightarrow> vec \<Rightarrow> real) \<Rightarrow> matrix \<Rightarrow> labels
    \<Rightarrow> error + 'tree merged" where
  "fit_and_score eng use_weights metric Z Yb =
     (case weights_or_none eng use_weights metric Z of
        Inl e \<Rightarrow> Inl e
      | Inr weights \<Rightarrow>
          (let superT = learn_local_decision_tree eng Z Yb weights None in
           case tree_score eng superT Z Yb weights of
             Inl e \<Rightarrow> Inl e
           | Inr fidelity \<Rightarrow>
               Inr \<lparr>m_superT = superT, m_fidelity = fidelity, m_Z = Z, m_Yb = Yb\<rparr>))"

text \<open>
  Lines 243--299, the merge step without the extreme-fidelity check.
  \<^item> \<^verbatim>\<open>binary_from_bb\<close> reads the locals \<open>Z\<close> and \<open>Yb\<close> as the loops left them.
  \<^item> Otherwise one tree per run is learnt (\<^verbatim>\<open>zip\<close> stops at the shortest of its lists;
    \<open>dt_list\<close> has \<open>runs\<close> elements), and \<open>Z\<close> and \<open>Yb\<close> become the concatenations.
  \<^item> In the n-ary branch the weights are computed again and concatenated, the trees are
    pruned, converted and merged; \<^verbatim>\<open>np.unique(Yb).shape[0]\<close> is the number of distinct
    labels. For \<^verbatim>\<open>binary_from_nari\<close> line 295 assigns the merged tree's predictions to
    \<open>Yb\<close> before line 296 scores the tree against \<open>Yb\<close>.
\<close>

definition merge_step ::
  "('tree, 'r) lorem \<Rightarrow> bool \<Rightarrow> (vec \<Rightarrow> vec \<Rightarrow> real) \<Rightarrow> nat \<Rightarrow> bool \<Rightarrow> neighborhoods
    \<Rightarrow> error + 'tree merged" where
  "merge_step eng use_weights metric runs prune_tree nb =
     (if binary eng = Binary_from_bb then
        (case nb_Z nb of
           None \<Rightarrow> Inl (NameError ''Z'')
         | Some Z \<Rightarrow>
             (case nb_Yb nb of
                None \<Rightarrow> Inl (NameError ''Yb'')
              | Some Yb \<Rightarrow> fit_and_score eng use_weights metric Z Yb))
      else
        (let dt_list =
               map (\<lambda>(Zl, Yb, weights).
                      learn_local_decision_tree eng Zl Yb weights (Some prune_tree))
                 (take runs (zip (nb_Z_list nb) (zip (nb_Yb_list nb) (nb_weights_list nb))))
         in if nb_Z_list nb = [] then Inl ValueError
            else
              (let Z = nan_to_num (concat (nb_Z_list nb));
                   Yb = concat (nb_Yb_list nb)
               in if binary eng = Binary_from_dts then fit_and_score eng use_weights metric Z Yb
                  else
                    (let dt_list = map (prune_duplicate_leaves eng) dt_list in
                     case for_each (weights_or_none eng use_weights metric) (nb_Z_list nb) of
                       Inl e \<Rightarrow> Inl e
                     | Inr weights_list \<Rightarrow>
                         (case concatenate_weights weights_list of
                            Inl e \<Rightarrow> Inl e
                          | Inr weights \<Rightarrow>
                              (let roots =
                                     map (\<lambda>t. rec_buildTree eng t [0..<length (feature_names eng)])
                                       dt_list;
                                   superT = mergeDecisionTrees eng roots (length (remdups Yb))
                               in if binary eng = Binary_from_nari then
                                    (let superT = supert2b eng superT Z;
                                         Yb = tree_predict eng superT Z
                                     in case tree_score eng superT Z Yb (Some weights) of
                                          Inl e \<Rightarrow> Inl e
                                        | Inr fidelity \<Rightarrow>
                                            Inr \<lparr>m_superT = superT, m_fidelity = fidelity,
                                                 m_Z = Z, m_Yb = Yb\<rparr>)
                                  else
                                    (let Yz = tree_predict eng superT Z
                                     in case accuracy_score Yb Yz None of
                                          Inl e \<Rightarrow> Inl e
                                        | Inr fidelity \<Rightarrow>
                                            Inr \<lparr>m_superT = superT, m_fidelity = fidelity,
                                                 m_Z = Z, m_Yb = Yb\<rparr>)))))))"

text \<open>
  Lines 301--304. The check stands inside the \<^verbatim>\<open>else\<close> branch of line 272, so it is
  run for the n-ary merge and for \<^verbatim>\<open>binary_from_nari\<close> only. \<^verbatim>\<open>superT.predict(x)\<close> is
  the prediction for the (encoded) instance; comparing it with \<open>y\<close> reads \<open>y\<close>.
\<close>

definition extreme_fidelity_check ::
  "('tree, 'r) lorem \<Rightarrow> vec \<Rightarrow> labels option \<Rightarrow> 'tree \<Rightarrow> error + unit" where
  "extreme_fidelity_check eng x y superT =
     (if binary eng \<noteq> Binary_from_bb \<and> binary eng \<noteq> Binary_from_dts
         \<and> extreme_fidelity eng then
        (let res = tree_predict eng superT [x] in
         case y of
           None \<Rightarrow> Inl (NameError ''y'')
         | Some yv \<Rightarrow> if res \<noteq> yv then Inl Surrogate_mismatch else Inr ())
      else Inr ())"

text \<open>The \<^verbatim>\<open>Explanation\<close> object with the attributes that lines 319--348 set.\<close>

record ('tree, 'r) explanation =
  bb_pred :: int
  dt_pred :: int
  rule :: 'r
  crules :: 'r
  deltas :: 'r
  dt :: 'tree
  fidelity :: npfloat
  feature_importance :: 'r
  feature_importance_all :: 'r
  exemplars :: string
  cexemplars :: string

text \<open>\<^verbatim>\<open>'\n'.join(...)\<close> of \<^verbatim>\<open>get_exemplars_str\<close>.\<close>

fun join_lines :: "string list \<Rightarrow> string" where
  "join_lines [] = []"
| "join_lines [l] = l"
| "join_lines (l # ls) = l @ [CHR 0x0A] @ join_lines ls"

definition get_exemplars_str :: "('tree, 'r) lorem \<Rightarrow> matrix \<Rightarrow> string" where
  "get_exemplars_str eng exemplars_rec = join_lines (map (record2str eng) exemplars_rec)"

text \<open>
  Lines 308--349: rule extraction, feature importance, exemplars, and the assembly of
  the explanation. \<^verbatim>\<open>Yc[0]\<close> and \<^verbatim>\<open>Yb[0]\<close> raise \<^verbatim>\<open>IndexError\<close> on empty vectors.
\<close>

definition assemble ::
  "('tree, 'r) lorem \<Rightarrow> vec \<Rightarrow> nat \<Rightarrow> 'tree merged \<Rightarrow> error + ('tree, 'r) explanation" where
  "assemble eng x exemplar_num m =
     (let superT = m_superT m;
          Z = m_Z m;
          Yb = m_Yb m;
          Yc = tree_predict eng superT Z;
          rule_x = get_rule eng x (bb_predict eng [x]) superT
      in case Yc of
           [] \<Rightarrow> Inl IndexError
         | yc0 # _ \<Rightarrow>
             (let (crules_x, deltas_x) = get_counterfactual_rules eng x yc0 superT Z Yc in
              case Yb of
                [] \<Rightarrow> Inl IndexError
              | yb0 # _ \<Rightarrow>
                  (let (fi, fi_all) =
                         (if binary eng \<noteq> Not_binary
                          then get_feature_importance_binary eng superT x
                          else get_feature_importance_supert eng superT x (length Yb));
                       (exemplars_rec, cexemplars_rec) =
                         (if binary eng \<noteq> Not_binary
                          then get_exemplars_cexemplars_binary
                                 (tree_apply eng superT) (K eng) x exemplar_num
                          else get_exemplars_cexemplars_supert
                                 (tree_apply eng superT) (K eng) x exemplar_num)
                   in Inr \<lparr>bb_pred = yb0, dt_pred = yc0, rule = rule_x, crules = crules_x,
                          deltas = deltas_x, dt = superT, fidelity = m_fidelity m,
                          feature_importance = fi, feature_importance_all = fi_all,
                          exemplars =
                            (case exemplars_rec of
                               None \<Rightarrow> ''None''
                             | Some rows \<Rightarrow> get_exemplars_str eng rows),
                          cexemplars =
                            (case cexemplars_rec of
                               None \<Rightarrow> ''None''
                             | Some rows \<Rightarrow> get_exemplars_str eng rows)\<rparr>)))"

text \<open>\<^verbatim>\<open>explain_instance_stable\<close>: the steps in the order of the source.\<close>

definition explain_instance_stable ::
  "('tree, 'r) lorem \<Rightarrow> vec \<Rightarrow> nat \<Rightarrow> bool \<Rightarrow> (vec \<Rightarrow> vec \<Rightarrow> real) \<Rightarrow> nat \<Rightarrow> nat \<Rightarrow> bool
    \<Rightarrow> error + ('tree, 'r) explanation" where
  "explain_instance_stable eng x samples use_weights metric runs exemplar_num prune_tree =
     (if multi_label eng then Inl Not_implemented
      else
        (let (y, x) = encode_instance eng x in
         case sample_neighborhoods eng x samples use_weights metric runs of
           Inl e \<Rightarrow> Inl e
         | Inr nb \<Rightarrow>
             (case merge_step eng use_weights metric runs prune_tree nb of
                Inl e \<Rightarrow> Inl e
              | Inr m \<Rightarrow>
                  (case extreme_fidelity_check eng x y (m_superT m) of
                     Inl e \<Rightarrow> Inl e
                   | Inr _ \<Rightarrow> assemble eng x exemplar_num m))))"

subsection \<open>A small configuration for concrete runs\<close>

text \<open>
  Collaborators simple enough to run the pipeline by hand: one numeric feature, a black
  box that answers 1 from the threshold 5 on, a sampler with two fixed neighborhoods
  around the instance, and a surrogate provider whose tree remembers its training data
  and always predicts the largest label it was trained on. Merging takes the first tree.
\<close>

definition threshold_bb :: "matrix \<Rightarrow> labels" where
  "threshold_bb Z = map (\<lambda>row. if hd row < 5 then 0 else 1) Z"

definition two_neighborhoods :: "vec \<Rightarrow> nat \<Rightarrow> nat \<Rightarrow> matrix list" where
  "two_neighborhoods x samples runs = take runs [[x, [9]], [x, [2]]]"

type_synonym stump = "matrix \<times> labels"

definition stump_predict :: "stump \<Rightarrow> matrix \<Rightarrow> labels" where
  "stump_predict t X = map (\<lambda>row. fold max (snd t) 0) X"

definition first_tree :: "stump list \<Rightarrow> nat \<Rightarrow> stump" where
  "first_tree roots num_classes = (case roots of [] \<Rightarrow> ([], []) | t # _ \<Rightarrow> t)"

definition identity_encoder :: encoder where
  "identity_encoder = \<lparr>enc = (\<lambda>x y. x), dec = (\<lambda>Z. Z)\<rparr>"

definition example_engine :: "merge_mode \<Rightarrow> bool \<Rightarrow> encoder option \<Rightarrow> (stump, unit) lorem" where
  "example_engine mode extreme ed =
     \<lparr>bb_predict = threshold_bb,
      encdec = ed,
      multi_generate = two_neighborhoods,
      discretize = None,
      learn_local_decision_tree = (\<lambda>Z Yb weights prune_tree. (Z, Yb)),
      prune_duplicate_leaves = (\<lambda>t. t),
      rec_buildTree = (\<lambda>t features. t),
      mergeDecisionTrees = first_tree,
      supert2b = (\<lambda>t Z. t),
      tree_predict = stump_predict,
      tree_apply = (\<lambda>t row. if hd row < 5 then 0 else 1),
      get_rule = (\<lambda>x y t. ()),
      get_counterfactual_rules = (\<lambda>x yc t Z Yc. ((), ())),
      get_feature_importance_binary = (\<lambda>t x. ((), ())),
      get_feature_importance_supert = (\<lambda>t x n. ((), ())),
      record2str = (\<lambda>row. ''r''),
      K = [[2], [3], [9]],
      feature_names = [''f''],
      kernel_fn = init_kernel None,
      kernel_width = init_kernel_width None 1,
      multi_label = False,
      binary = mode,
      extreme_fidelity = extreme\<rparr>"

text \<open>The weights of a two-record neighborhood at normalized distances 0 and 1.\<close>

definition example_w :: "npfloat list" where
  "example_w = [default_kernel (Fin 0) (3 / 4), default_kernel (Fin 1) (3 / 4)]"

section \<open>Properties\<close>

subsection \<open>Properties of the dispatch loop\<close>

lemma items_for_worker_div:
  assumes "0 < W"
  shows "items_for_worker N W = (N + W - 1) div W"
proof -
  define q where "q = (N + W - 1) div W"
  have "N + W - 1 < W + q * W"
    unfolding q_def using assms by (rule dividend_less_div_times)
  then have 1: "N \<le> q * W" by simp
  have "q * W \<le> N + W - 1"
    unfolding q_def by (rule div_times_less_eq_dividend)
  with assms have 2: "q * W < N + W" by simp
  have r1: "real N \<le> real q * real W"
    using 1 by (metis of_nat_le_iff of_nat_mult)
  have r2: "real q * real W < real N + real W"
    using 2 by (metis of_nat_less_iff of_nat_mult of_nat_add)
  have W: "0 < real W" using assms by simp
  have "\<lceil>real N / real W\<rceil> = int q"
  proof (rule ceiling_unique)
    show "of_int (int q) - 1 < real N / real W"
      using r2 W by (simp add: field_simps)
    show "real N / real W \<le> of_int (int q)"
      using r1 W by (simp add: field_simps)
  qed
  then show ?thesis by (simp add: q_def items_for_worker_def)
qed

lemma dispatch_loop_closed:
  assumes "0 < c" "m \<le> W" "(m - 1) * c < length X" "length X \<le> m * c"
  shows "i < m \<Longrightarrow>
    dispatch_loop X W c i (i * c) (i * c + c) ps =
      (ps @ map (\<lambda>k. (k, slice X (k * c) (k * c + c))) [i..<m], Some (W - 1))"
proof (induction "m - i" arbitrary: i ps)
  case 0
  then show ?case by simp
next
  case (Suc d)
  from Suc.prems assms(2) have iW: "i < W" by simp
  show ?case
  proof (cases "Suc i = m")
    case True
    then have "length X \<le> i * c + c" using assms(4) by auto
    then have "int (length X) \<le> int (i * c + c)" by (simp only: of_nat_le_iff)
    then have brk: "int (i * c + c) > int (length X) - 1" by linarith
    have "[i..<m] = [i]" using True by auto
    then show ?thesis
      using iW brk by (subst dispatch_loop.simps) (simp add: Let_def)
  next
    case False
    with Suc.prems have lt: "Suc i < m" by simp
    then have "Suc i \<le> m - 1" by simp
    then have "Suc i * c \<le> (m - 1) * c" by (rule mult_le_mono1)
    with assms(3) have "i * c + c < length X" by (simp add: add.commute)
    then have "int (i * c + c) < int (length X)" by (simp only: of_nat_less_iff)
    then have nobrk: "\<not> int (i * c + c) > int (length X) - 1" by linarith
    have d: "d = m - Suc i" using Suc.hyps(2) by simp
    have IH: "dispatch_loop X W c (Suc i) (Suc i * c) (Suc i * c + c) (ps @ [(i, slice X (i * c) (i * c + c))]) =
      ((ps @ [(i, slice X (i * c) (i * c + c))]) @ map (\<lambda>k. (k, slice X (k * c) (k * c + c))) [Suc i..<m], Some (W - 1))"
      using Suc.hyps(1) [OF d lt] .
    have up: "[i..<m] = i # [Suc i..<m]" using Suc.prems by (simp add: upt_conv_Cons)
    have e: "Suc i * c = i * c + c" by simp
    show ?thesis
      using iW nobrk IH unfolding e
      by (subst dispatch_loop.simps) (simp add: Let_def up)
  qed
qed

lemma chunk_count:
  fixes N W :: nat
  assumes "0 < N" "0 < W"
  defines "c \<equiv> (N + W - 1) div W"
  defines "m \<equiv> (N + c - 1) div c"
  shows "0 < c" "0 < m" "m \<le> W" "(m - 1) * c < N" "N \<le> m * c"
proof -
  have "N + W - 1 < W + c * W"
    unfolding c_def using assms(2) by (rule dividend_less_div_times)
  then have NcW: "N \<le> c * W" by simp
  with assms(1) show c: "0 < c" by (cases c) auto
  have "N + c - 1 < c + m * c"
    unfolding m_def using c by (rule dividend_less_div_times)
  then show Nm: "N \<le> m * c" by simp
  with assms(1) show m: "0 < m" by (cases m) auto
  have mc: "m * c \<le> N + c - 1"
    unfolding m_def by (rule div_times_less_eq_dividend)
  have "(m - 1) * c = m * c - c" by (simp add: diff_mult_distrib)
  with mc assms(1) c show "(m - 1) * c < N" by simp
  have "m * c < (W + 1) * c" using mc NcW c by (simp add: mult.commute)
  then have "m < W + 1" using c by (simp only: mult_less_cancel2)
  then show "m \<le> W" by simp
qed

lemma join_loop_upt:
  "a \<le> n \<Longrightarrow> join_loop [a..<w] n js =
     (js @ [a..<min w n], if n < w then Some IndexError else None)"
proof (induction "w - a" arbitrary: a js)
  case 0
  then show ?case by simp
next
  case (Suc d)
  then have aw: "a < w" by simp
  then have up: "[a..<w] = a # [Suc a..<w]" by (simp add: upt_conv_Cons)
  show ?case
  proof (cases "a < n")
    case True
    have d: "d = w - Suc a" using Suc.hyps(2) by simp
    from True have le: "Suc a \<le> n" by simp
    have "[a..<min w n] = a # [Suc a..<min w n]"
      using True aw by (simp add: upt_conv_Cons)
    then show ?thesis
      using Suc.hyps(1) [OF d le] True by (simp add: up)
  next
    case False
    with Suc.prems have an: "a = n" by simp
    have "join_loop (a # [Suc a..<w]) n js = (js, Some IndexError)"
      using an by simp
    then show ?thesis unfolding up using aw an by simp
  qed
qed

lemma concat_slices:
  "concat (map (\<lambda>k. slice X (k * c) (k * c + c)) [0..<m]) = take (m * c) X"
proof (induction m)
  case 0
  then show ?case by simp
next
  case (Suc m)
  have "Suc m * c = m * c + c" by simp
  then have "take (Suc m * c) X = take (m * c) X @ take c (drop (m * c) X)"
    by (simp only: take_add)
  with Suc show ?case by (simp add: slice_def)
qed

lemma dispatch_run_closed:
  fixes X :: "'a list"
  assumes "X \<noteq> []" "0 < W"
  defines "c \<equiv> items_for_worker (length X) W"
  defines "m \<equiv> (length X + c - 1) div c"
  shows "explain_set_instances_stable X W =
     \<lparr>started = map (\<lambda>k. (k, slice X (k * c) (k * c + c))) [0..<m],
      joined = [0..<min (W - 1) m],
      raised = (if m < W - 1 then Some IndexError else None)\<rparr>"
proof -
  have N: "0 < length X" using assms(1) by simp
  have c: "c = (length X + W - 1) div W"
    unfolding c_def using assms(2) by (rule items_for_worker_div)
  note cc = chunk_count [OF N assms(2), folded c, folded m_def]
  have "dispatch_loop X W c 0 (0 * c) (0 * c + c) [] =
      ([] @ map (\<lambda>k. (k, slice X (k * c) (k * c + c))) [0..<m], Some (W - 1))"
    using cc(1) cc(3) cc(4) cc(5) cc(2) by (rule dispatch_loop_closed)
  then have loop: "dispatch_loop X W c 0 0 c [] =
      (map (\<lambda>k. (k, slice X (k * c) (k * c + c))) [0..<m], Some (W - 1))"
    by simp
  have j: "join_loop [0..<W - 1] m [] =
      ([] @ [0..<min (W - 1) m], if m < W - 1 then Some IndexError else None)"
    by (rule join_loop_upt) simp
  show ?thesis
    using assms(2) loop j
    by (simp add: explain_set_instances_stable_def c_def [symmetric])
qed

text \<open>
  Claim C8. For a collection of \<open>N \<ge> 1\<close> instances and \<open>W \<ge> 1\<close> workers, the chunks
  handed to the started processes are a partition of the collection into contiguous
  slices: their concatenation is the collection (so the chunk sizes add up to \<open>N\<close>, no
  instance is handed out twice and none is skipped), there are at most \<open>W\<close> of them, the
  processes carry the worker indices \<open>0, 1, \<dots>\<close> in order, chunk \<open>k\<close> is
  \<^verbatim>\<open>X[k*c : k*c + c]\<close> for \<open>c = ceil(N / W)\<close>, every chunk but the last has exactly \<open>c\<close>
  instances, and the last has between 1 and \<open>c\<close>.
\<close>

theorem batch_dispatch_partition:
  fixes X :: "'a list"
  assumes "X \<noteq> []" and "1 \<le> W"
  shows "concat (chunks_of X W) = X
    \<and> sum_list (map length (chunks_of X W)) = length X
    \<and> chunks_of X W \<noteq> []
    \<and> length (chunks_of X W) \<le> W
    \<and> map fst (started (explain_set_instances_stable X W)) = [0..<length (chunks_of X W)]
    \<and> (\<forall>k < length (chunks_of X W).
          chunks_of X W ! k =
            slice X (k * items_for_worker (length X) W)
                    (k * items_for_worker (length X) W + items_for_worker (length X) W))
    \<and> (\<forall>k. Suc k < length (chunks_of X W) \<longrightarrow>
          length (chunks_of X W ! k) = items_for_worker (length X) W)
    \<and> 0 < length (last (chunks_of X W))
    \<and> length (last (chunks_of X W)) \<le> items_for_worker (length X) W"
proof -
  define c where "c = items_for_worker (length X) W"
  define m where "m = (length X + c - 1) div c"
  have W: "0 < W" using assms(2) by simp
  have N: "0 < length X" using assms(1) by simp
  have c: "c = (length X + W - 1) div W"
    unfolding c_def using W by (rule items_for_worker_div)
  note cc = chunk_count [OF N W, folded c, folded m_def]
  have run: "started (explain_set_instances_stable X W) =
      map (\<lambda>k. (k, slice X (k * c) (k * c + c))) [0..<m]"
    using dispatch_run_closed [OF assms(1) W] by (simp add: c_def m_def)
  have ch: "chunks_of X W = map (\<lambda>k. slice X (k * c) (k * c + c)) [0..<m]"
    by (simp add: chunks_of_def run comp_def)
  have len: "length (chunks_of X W) = m" by (simp add: ch)
  have p1: "concat (chunks_of X W) = X"
    using cc(5) by (simp add: ch concat_slices)
  have "sum_list (map length (chunks_of X W)) = length (concat (chunks_of X W))"
    by (simp add: length_concat)
  then have p2: "sum_list (map length (chunks_of X W)) = length X"
    by (simp only: p1)
  have p3: "chunks_of X W \<noteq> []" using cc(2) by (simp add: ch)
  have p4: "length (chunks_of X W) \<le> W" using cc(3) by (simp add: len)
  have p5: "map fst (started (explain_set_instances_stable X W)) = [0..<length (chunks_of X W)]"
    by (simp add: run len comp_def)
  have p6: "\<forall>k < length (chunks_of X W). chunks_of X W ! k = slice X (k * c) (k * c + c)"
    by (simp add: ch)
  have p7: "\<forall>k. Suc k < length (chunks_of X W) \<longrightarrow> length (chunks_of X W ! k) = c"
  proof (intro allI impI)
    fix k assume k: "Suc k < length (chunks_of X W)"
    then have "Suc k \<le> m - 1" by (simp add: len)
    then have "Suc k * c \<le> (m - 1) * c" by (rule mult_le_mono1)
    with cc(4) have "k * c + c < length X" by (simp add: add.commute)
    moreover have "chunks_of X W ! k = slice X (k * c) (k * c + c)"
      using k by (simp add: ch)
    ultimately show "length (chunks_of X W ! k) = c"
      by (simp add: slice_def)
  qed
  have lst: "last (chunks_of X W) = slice X ((m - 1) * c) ((m - 1) * c + c)"
    using cc(2) by (simp add: ch last_map last_upt)
  have p8: "0 < length (last (chunks_of X W))"
    using cc(4) cc(1) by (simp add: lst slice_def)
  have p9: "length (last (chunks_of X W)) \<le> c"
    by (simp add: lst slice_def)
  show ?thesis
    using p1 p2 p3 p4 p5 p6 p7 p8 p9 unfolding c_def by blast
qed

theorem batch_dispatch_partition_witness:
  "[10, 11, 12, 13, 14 :: nat] \<noteq> [] \<and> (1::nat) \<le> 2
   \<and> chunks_of [10, 11, 12, 13, 14 :: nat] 2 = [[10, 11, 12], [13, 14]]
   \<and> concat (chunks_of [10, 11, 12, 13, 14 :: nat] 2) = [10, 11, 12, 13, 14]
   \<and> length (chunks_of [10, 11, 12, 13, 14 :: nat] 2) \<le> 2"
proof -
  have h1: "[10, 11, 12, 13, 14 :: nat] \<noteq> []" by simp
  have h2: "(1::nat) \<le> 2" by simp
  note t = batch_dispatch_partition [OF h1 h2]
  have n: "length [10, 11, 12, 13, 14 :: nat] = 5" by simp
  have c5: "items_for_worker 5 2 = 3"
    by (simp add: items_for_worker_div)
  have c: "items_for_worker (length [10, 11, 12, 13, 14 :: nat]) 2 = 3"
    unfolding n by (rule c5)
  have "explain_set_instances_stable [10, 11, 12, 13, 14 :: nat] 2 =
     \<lparr>started = map (\<lambda>k. (k, slice [10, 11, 12, 13, 14 :: nat] (k * 3) (k * 3 + 3))) [0..<(5 + 3 - 1) div 3],
      joined = [0..<min (2 - 1) ((5 + 3 - 1) div 3)],
      raised = (if (5 + 3 - 1) div 3 < (2::nat) - 1 then Some IndexError else None)\<rparr>"
    using dispatch_run_closed [of "[10, 11, 12, 13, 14 :: nat]" 2] unfolding n c5 by simp
  then have "length (started (explain_set_instances_stable [10, 11, 12, 13, 14 :: nat] 2)) = 2"
    by simp
  then have l: "length (chunks_of [10, 11, 12, 13, 14 :: nat] 2) = 2"
    by (simp add: chunks_of_def)
  from t have "\<forall>k < length (chunks_of [10, 11, 12, 13, 14 :: nat] 2).
          chunks_of [10, 11, 12, 13, 14 :: nat] 2 ! k =
            slice [10, 11, 12, 13, 14 :: nat] (k * items_for_worker (length [10, 11, 12, 13, 14 :: nat]) 2)
                    (k * items_for_worker (length [10, 11, 12, 13, 14 :: nat]) 2 + items_for_worker (length [10, 11, 12, 13, 14 :: nat]) 2)"
    by blast
  then have e: "\<forall>k < 2. chunks_of [10, 11, 12, 13, 14 :: nat] 2 ! k = slice [10, 11, 12, 13, 14 :: nat] (k * 3) (k * 3 + 3)"
    unfolding l c .
  have "chunks_of [10, 11, 12, 13, 14 :: nat] 2 ! 0 = [10, 11, 12]"
    using e by (simp add: slice_def)
  moreover have "chunks_of [10, 11, 12, 13, 14 :: nat] 2 ! 1 = [13, 14]"
    using e by (simp add: slice_def)
  ultimately have "chunks_of [10, 11, 12, 13, 14 :: nat] 2 = [[10, 11, 12], [13, 14]]"
    using l by (auto simp: list_eq_iff_nth_eq less_Suc_eq numeral_2_eq_2)
  with t h1 h2 show ?thesis by simp
qed

text \<open>
  Claim C9 says that the dispatcher joins every process it started. The code sets
  \<^verbatim>\<open>workers = n_workers - 1\<close> at the break and joins \<^verbatim>\<open>range(0, workers)\<close>
  (lemma \<open>dispatch_run_closed\<close>: it joins the indices below \<open>min (W - 1) m\<close> where \<open>m\<close>
  processes were started). With four instances and two workers, both workers are started,
  only worker 0 is joined, and the function returns without an exception.
\<close>

theorem join_misses_last_worker:
  "started (explain_set_instances_stable [10, 11, 12, 13 :: nat] 2) = [(0, [10, 11]), (1, [12, 13])]
   \<and> joined (explain_set_instances_stable [10, 11, 12, 13 :: nat] 2) = [0]
   \<and> raised (explain_set_instances_stable [10, 11, 12, 13 :: nat] 2) = None"
proof -
  have n: "length [10, 11, 12, 13 :: nat] = 4" by simp
  have c: "items_for_worker 4 2 = 2"
    by (simp add: items_for_worker_div)
  have u: "[0..<2] = [0, Suc 0]" by (simp add: upt_conv_Cons)
  have "explain_set_instances_stable [10, 11, 12, 13 :: nat] 2 =
     \<lparr>started = map (\<lambda>k. (k, slice [10, 11, 12, 13 :: nat] (k * 2) (k * 2 + 2))) [0..<(4 + 2 - 1) div 2],
      joined = [0..<min (2 - 1) ((4 + 2 - 1) div 2)],
      raised = (if (4 + 2 - 1) div 2 < (2::nat) - 1 then Some IndexError else None)\<rparr>"
    using dispatch_run_closed [of "[10, 11, 12, 13 :: nat]" 2] unfolding n c by simp
  then show ?thesis
    by (simp add: u slice_def)
qed

subsection \<open>Properties of the weighting kernel\<close>








lemma np_exp_exact:
  assumes "- 8 \<le> x"
  shows "np_exp x = exp x"
proof -
  have "exp (8 :: real) = exp (of_nat 8 * 1)" by simp
  also have "\<dots> = exp 1 ^ 8" by (simp only: exp_of_nat_mult)
  also have "\<dots> \<le> 3 ^ 8" using exp_le by (rule power_mono) simp
  also have "\<dots> \<le> (2 :: real) ^ 1075" by simp
  finally have e8: "exp (8 :: real) \<le> 2 ^ 1075" .
  have "1 / 2 ^ 1075 \<le> 1 / exp (8 :: real)"
    using e8 by (simp add: frac_le)
  also have "\<dots> = exp (- 8)" by (simp add: exp_minus inverse_eq_divide)
  also have "\<dots> \<le> exp x" using assms by simp
  finally show ?thesis by (simp add: np_exp_def)
qed













subsection \<open>Properties of the exemplar selectors\<close>

lemma set_argsort: "set (argsort ds) = {..<length ds}"
  by (simp add: argsort_def atLeast0LessThan)

lemma first_n_by_distance_subset: "set (first_n_by_distance x vals n) \<subseteq> set vals"
proof
  fix row assume "row \<in> set (first_n_by_distance x vals n)"
  then obtain i where i: "i \<in> set (take n (argsort (cdist_to euclidean vals x)))"
    and row: "row = vals ! i"
    by (auto simp: first_n_by_distance_def)
  from i have "i \<in> set (argsort (cdist_to euclidean vals x))"
    by (rule in_set_takeD)
  then have "i < length vals"
    by (simp add: set_argsort cdist_to_def)
  with row show "row \<in> set vals" by simp
qed

lemma remove_instance_excludes:
  assumes "x \<noteq> []"
  shows "x \<notin> set (remove_instance vals x)"
proof
  assume a: "x \<in> set (remove_instance vals x)"
  show False
  proof (cases "np_contains vals x")
    case True
    with a show False by (simp add: remove_instance_def)
  next
    case False
    with a have in_vals: "x \<in> set vals" by (simp add: remove_instance_def)
    from assms obtain a0 rest where x: "x = a0 # rest" by (cases x) auto
    have "(a0, a0) \<in> set (zip x x)" by (simp add: x)
    with in_vals have "np_contains vals x"
      unfolding np_contains_def by blast
    with False show False by simp
  qed
qed

lemma first_n_by_distance_sorted:
  "sorted (map (\<lambda>row. euclidean row x) (first_n_by_distance x vals n))"
proof -
  let ?ds = "cdist_to euclidean vals x"
  have idx: "\<forall>i \<in> set (take n (argsort ?ds)). i < length vals"
    using set_argsort [of ?ds] by (auto simp: cdist_to_def dest: in_set_takeD)
  have "map (\<lambda>row. euclidean row x) (first_n_by_distance x vals n) =
      map (\<lambda>i. ?ds ! i) (take n (argsort ?ds))"
    using idx by (simp add: first_n_by_distance_def cdist_to_def)
  also have "\<dots> = take n (map (\<lambda>i. ?ds ! i) (argsort ?ds))"
    by (simp add: take_map)
  finally have e: "map (\<lambda>row. euclidean row x) (first_n_by_distance x vals n) =
      take n (map (\<lambda>i. ?ds ! i) (argsort ?ds))" .
  have "sorted (map (\<lambda>i. ?ds ! i) (argsort ?ds))"
    by (simp add: argsort_def)
  then show ?thesis
    unfolding e by (rule sorted_wrt_take)
qed

lemma first_n_by_distance_length:
  "length (first_n_by_distance x vals n) = min n (length vals)"
  by (simp add: first_n_by_distance_def argsort_def cdist_to_def min.commute)

lemma binary_selector_both_nonempty:
  assumes "remove_instance (filter (\<lambda>row. leaf row = leaf x) pop) x \<noteq> []"
  shows "get_exemplars_cexemplars_binary leaf pop x n =
     (Some (first_n_by_distance x (remove_instance (filter (\<lambda>row. leaf row = leaf x) pop) x)
              (length (remove_instance (filter (\<lambda>row. leaf row = leaf x) pop) x))),
      None)"
  using assms by (simp add: get_exemplars_cexemplars_binary_def Let_def)

text \<open>
  Claim C7. For an instance \<open>x\<close> with at least one feature, whatever the tree, the
  population and the requested count: the exemplar set returned by the binary selector
  and the one returned by the merged n-ary selector contain no row equal to \<open>x\<close>.
\<close>

theorem exemplars_exclude_instance:
  assumes "x \<noteq> []"
  shows "(\<forall>E. fst (get_exemplars_cexemplars_binary leaf pop x n) = Some E \<longrightarrow> x \<notin> set E)
       \<and> (\<forall>E. fst (get_exemplars_cexemplars_supert leaf pop x n) = Some E \<longrightarrow> x \<notin> set E)"
proof -
  define vals where "vals = remove_instance (filter (\<lambda>row. leaf row = leaf x) pop) x"
  have nx: "x \<notin> set vals"
    unfolding vals_def using assms by (rule remove_instance_excludes)
  have sub: "x \<notin> set (first_n_by_distance x vals k)" for k
    using nx first_n_by_distance_subset [of x vals k] by blast
  have b: "\<forall>E. fst (get_exemplars_cexemplars_binary leaf pop x n) = Some E \<longrightarrow> x \<notin> set E"
    using sub
    by (auto simp: get_exemplars_cexemplars_binary_def Let_def vals_def split: if_splits)
  have s: "\<forall>E. fst (get_exemplars_cexemplars_supert leaf pop x n) = Some E \<longrightarrow> x \<notin> set E"
    using sub
    by (auto simp: get_exemplars_cexemplars_supert_def Let_def vals_def split: if_splits)
  from b s show ?thesis by simp
qed

lemma argsort_two: "argsort [1, 2] = [0, 1]"
  by (simp add: argsort_def upt_conv_Cons)

theorem exemplars_exclude_instance_witness:
  "[1 :: real] \<noteq> []
   \<and> fst (get_exemplars_cexemplars_binary (\<lambda>row. hd row < 5) [[1], [2], [3], [9]] [1] 1)
       = Some [[2], [3]]
   \<and> [1] \<notin> set [[2], [3 :: real]]"
proof -
  have h: "[1 :: real] \<noteq> []" by simp
  have ds: "cdist_to euclidean [[2], [3]] [1] = [1, 2]"
    by (simp add: cdist_to_def euclidean_def)
  have e: "fst (get_exemplars_cexemplars_binary (\<lambda>row. hd row < 5) [[1], [2], [3], [9]] [1] 1)
       = Some [[2], [3]]"
    by (simp add: get_exemplars_cexemplars_binary_def remove_instance_def np_contains_def
        first_n_by_distance_def ds argsort_two)
  from exemplars_exclude_instance [OF h, of "\<lambda>row. hd row < 5" "[[1], [2], [3], [9]]" 1] e
  have "[1] \<notin> set [[2], [3 :: real]]" by simp
  with h e show ?thesis by simp
qed

text \<open>
  Claim C4 says that with both partitions non-empty the selector returns the \<open>n\<close> nearest
  of each. The n-ary selector does; the binary selector returns from the \<^verbatim>\<open>else\<close> of
  line 396 with all exemplars and no counter-exemplars (lemma
  \<open>binary_selector_both_nonempty\<close>). Population \<open>[[2], [3], [9]]\<close>, instance \<open>[1]\<close>,
  leaves split at 5, \<open>n = 1\<close>: two exemplars, one counter-exemplar.
\<close>

theorem binary_selector_drops_counter_exemplars:
  "get_exemplars_cexemplars_binary (\<lambda>row. hd row < 5) [[2], [3], [9]] [1] 1
     = (Some [[2], [3]], None)
   \<and> get_exemplars_cexemplars_supert (\<lambda>row. hd row < 5) [[2], [3], [9]] [1] 1
     = (Some [[2]], Some [[9]])"
proof -
  have ds: "cdist_to euclidean [[2], [3]] [1] = [1, 2]"
    by (simp add: cdist_to_def euclidean_def)
  have ds': "cdist_to euclidean [[9]] [1] = [8]"
    by (simp add: cdist_to_def euclidean_def)
  have a1: "argsort [8] = [0]" by (simp add: argsort_def)
  have b: "get_exemplars_cexemplars_binary (\<lambda>row. hd row < 5) [[2], [3], [9]] [1] 1
     = (Some [[2], [3]], None)"
    by (simp add: get_exemplars_cexemplars_binary_def remove_instance_def np_contains_def
        first_n_by_distance_def ds argsort_two)
  have s: "get_exemplars_cexemplars_supert (\<lambda>row. hd row < 5) [[2], [3], [9]] [1] 1
     = (Some [[2]], Some [[9]])"
    by (simp add: get_exemplars_cexemplars_supert_def remove_instance_def np_contains_def
        first_n_by_distance_def ds ds' argsort_two a1)
  from b s show ?thesis by simp
qed

subsection \<open>Properties of the run stabilizer\<close>

lemma assemble_Inr:
  assumes "tree_predict eng (m_superT m) (m_Z m) \<noteq> []" "m_Yb m \<noteq> []"
  shows "\<not> isl (assemble eng x n m)"
    and "dt (projr (assemble eng x n m)) = m_superT m"
    and "fidelity (projr (assemble eng x n m)) = m_fidelity m"
    and "bb_pred (projr (assemble eng x n m)) = hd (m_Yb m)"
proof -
  from assms obtain yc0 ycs where yc: "tree_predict eng (m_superT m) (m_Z m) = yc0 # ycs"
    by (cases "tree_predict eng (m_superT m) (m_Z m)") auto
  from assms obtain yb0 ybs where yb: "m_Yb m = yb0 # ybs"
    by (cases "m_Yb m") auto
  show "\<not> isl (assemble eng x n m)"
    by (simp add: assemble_def yc yb Let_def case_prod_beta)
  show "dt (projr (assemble eng x n m)) = m_superT m"
    by (simp add: assemble_def yc yb Let_def case_prod_beta)
  show "fidelity (projr (assemble eng x n m)) = m_fidelity m"
    by (simp add: assemble_def yc yb Let_def case_prod_beta)
  show "bb_pred (projr (assemble eng x n m)) = hd (m_Yb m)"
    by (simp add: assemble_def yc yb Let_def case_prod_beta)
qed

lemma assemble_Inl: "assemble eng x n m = Inl e \<Longrightarrow> e = IndexError"
  by (auto simp: assemble_def Let_def case_prod_beta split: list.splits)

lemma weight_distances_Inl:
  "weight_distances metric Z = Inl e \<Longrightarrow> e = ValueError"
  by (auto simp: weight_distances_def Let_def split: list.splits if_splits)

lemma weights_or_none_Inl:
  "weights_or_none eng use_weights metric Z = Inl e \<Longrightarrow> e = ValueError"
  by (auto simp: weights_or_none_def calculate_weights_def
      split: if_splits sum.splits dest: weight_distances_Inl)

lemma for_each_Inl: "for_each f xs = Inl e \<Longrightarrow> \<exists>a \<in> set xs. f a = Inl e"
  by (induction xs) (auto split: sum.splits)

lemma concatenate_weights_Inl: "concatenate_weights ws = Inl e \<Longrightarrow> e = ValueError"
  by (induction ws rule: concatenate_weights.induct) (auto split: option.splits sum.splits)

lemma accuracy_score_Inl:
  "accuracy_score a b w = Inl e \<Longrightarrow>
     e = ValueError \<or> e = ZeroDivisionError"
  by (auto simp: accuracy_score_def Let_def split: if_splits option.splits)

lemma sample_neighborhoods_Inl:
  assumes "sample_neighborhoods eng x samples use_weights metric runs = Inl e"
  shows "e = ValueError"
proof (cases "for_each (weights_or_none eng use_weights metric) (multi_generate eng x samples runs)")
  case (Inl e')
  with assms have "e' = e" by (simp add: sample_neighborhoods_def Let_def)
  with Inl show ?thesis
    by (auto dest!: for_each_Inl weights_or_none_Inl)
next
  case (Inr ws)
  with assms show ?thesis
    by (auto simp: sample_neighborhoods_def Let_def split: option.splits if_splits)
qed

lemma fit_and_score_Inl:
  "fit_and_score eng use_weights metric Z Yb = Inl e \<Longrightarrow>
     e = ValueError \<or> e = ZeroDivisionError"
  by (auto simp: fit_and_score_def tree_score_def Let_def split: sum.splits
      dest: weights_or_none_Inl accuracy_score_Inl)

lemma merge_step_Inl:
  assumes "merge_step eng use_weights metric runs prune_tree nb = Inl e"
    and "binary eng \<noteq> Binary_from_bb"
  shows "e = ValueError \<or> e = ZeroDivisionError"
proof (cases "nb_Z_list nb = []")
  case True
  with assms show ?thesis by (simp add: merge_step_def Let_def)
next
  case False
  show ?thesis
  proof (cases "binary eng = Binary_from_dts")
    case True
    with assms False show ?thesis
      by (auto simp: merge_step_def Let_def dest: fit_and_score_Inl)
  next
    case dts: False
    show ?thesis
    proof (cases "for_each (weights_or_none eng use_weights metric) (nb_Z_list nb)")
      case (Inl e')
      with assms False dts have "e' = e" by (simp add: merge_step_def Let_def)
      with Inl show ?thesis by (auto dest!: for_each_Inl weights_or_none_Inl)
    next
      case (Inr wl)
      show ?thesis
      proof (cases "concatenate_weights wl")
        case (Inl e')
        with assms False dts Inr have "e' = e" by (simp add: merge_step_def Let_def)
        with Inl show ?thesis by (auto dest: concatenate_weights_Inl)
      next
        case w: (Inr weights)
        with assms False dts Inr show ?thesis
          by (auto simp: merge_step_def Let_def tree_score_def
              split: if_splits sum.splits dest: accuracy_score_Inl)
      qed
    qed
  qed
qed

lemma fin_values_length: "fin_values ws = Some rs \<Longrightarrow> length rs = length ws"
  by (induction ws arbitrary: rs rule: fin_values.induct) (auto split: option.splits)

lemma weighted_self_agreement:
  "length w = length ys \<Longrightarrow>
   sum_list (map (\<lambda>(s, wi). s * wi)
     (zip (map (\<lambda>(a, b). if a = b then 1 else 0) (zip ys ys)) w)) = (sum_list w :: real)"
  by (induction w ys rule: list_induct2) auto

lemma accuracy_score_self:
  assumes "accuracy_score ys ys (Some wgt) = Inr r"
  shows "r = Fin 1 \<or> r = NaN"
proof (cases "fin_values wgt")
  case None
  with assms show ?thesis
    by (auto simp: accuracy_score_def Let_def split: if_splits)
next
  case (Some w)
  with assms have len: "length wgt = length ys" and nz: "sum_list w \<noteq> 0"
    by (auto simp: accuracy_score_def Let_def split: if_splits)
  from len Some have "length w = length ys" by (simp add: fin_values_length)
  with assms Some nz show ?thesis
    by (auto simp: accuracy_score_def Let_def weighted_self_agreement split: if_splits)
qed

lemma binary_from_nari_fidelity:
  assumes "merge_step eng use_weights metric runs prune_tree nb = Inr m"
    and "binary eng = Binary_from_nari"
  shows "m_fidelity m = Fin 1 \<or> m_fidelity m = NaN"
    and "m_Yb m = tree_predict eng (m_superT m) (m_Z m)"
  using assms
  by (auto simp: merge_step_def Let_def tree_score_def
      split: if_splits sum.splits dest: accuracy_score_self)

lemma check_not_made:
  assumes "binary eng = Binary_from_bb \<or> binary eng = Binary_from_dts"
  shows "extreme_fidelity_check eng x y superT = Inr ()"
  using assms by (auto simp: extreme_fidelity_check_def)

lemma check_made:
  assumes "binary eng = Not_binary \<or> binary eng = Binary_from_nari"
    and "extreme_fidelity eng"
  shows "extreme_fidelity_check eng x y superT =
     (case y of
        None \<Rightarrow> Inl (NameError ''y'')
      | Some yv \<Rightarrow>
          if tree_predict eng superT [x] \<noteq> yv then Inl Surrogate_mismatch else Inr ())"
  using assms by (auto simp: extreme_fidelity_check_def Let_def)

lemma sample_neighborhoods_locals:
  assumes "discretize eng = None"
    and "sample_neighborhoods eng x samples use_weights metric runs = Inr nb"
  shows "nb_Z nb = loop_var (multi_generate eng x samples runs)"
    and "nb_Yb nb = loop_var (label_neighborhoods eng (multi_generate eng x samples runs))"
  using assms by (auto simp: sample_neighborhoods_def Let_def split: sum.splits)

lemma binary_from_bb_training_data:
  assumes "binary eng = Binary_from_bb"
    and "merge_step eng use_weights metric runs prune_tree nb = Inr m"
  shows "nb_Z nb = Some (m_Z m)" and "nb_Yb nb = Some (m_Yb m)"
    and "\<exists>weights. m_superT m = learn_local_decision_tree eng (m_Z m) (m_Yb m) weights None"
  using assms
  by (auto simp: merge_step_def fit_and_score_def Let_def split: option.splits sum.splits)

subsection \<open>The example configuration, step by step\<close>

lemma example_fields:
  "bb_predict (example_engine mode ex ed) = threshold_bb"
  "encdec (example_engine mode ex ed) = ed"
  "multi_generate (example_engine mode ex ed) = two_neighborhoods"
  "discretize (example_engine mode ex ed) = None"
  "learn_local_decision_tree (example_engine mode ex ed) = (\<lambda>Z Yb weights prune_tree. (Z, Yb))"
  "prune_duplicate_leaves (example_engine mode ex ed) = (\<lambda>t. t)"
  "rec_buildTree (example_engine mode ex ed) = (\<lambda>t features. t)"
  "mergeDecisionTrees (example_engine mode ex ed) = first_tree"
  "supert2b (example_engine mode ex ed) = (\<lambda>t Z. t)"
  "tree_predict (example_engine mode ex ed) = stump_predict"
  "K (example_engine mode ex ed) = [[2], [3], [9]]"
  "multi_label (example_engine mode ex ed) = False"
  "binary (example_engine mode ex ed) = mode"
  "extreme_fidelity (example_engine mode ex ed) = ex"
  by (simp_all add: example_engine_def)

lemma example_w_values: "example_w = [Fin 1, Fin (sqrt (exp (- (16 / 9))))]"
proof -
  have "np_exp (- (16 / 9)) = exp (- (16 / 9))" by (rule np_exp_exact) simp
  moreover have "np_exp 0 = 1" by (simp add: np_exp_def)
  ultimately show ?thesis
    by (simp add: example_w_def default_kernel_def power2_eq_square)
qed

lemma example_w_sum: "0 < 1 + sqrt (exp (- (16 / 9 :: real)))"
  by (simp add: add_pos_pos)

lemma example_weights:
  "weights_or_none (example_engine mode ex ed) True euclidean [[1], [9]] = Inr (Some example_w)"
  "weights_or_none (example_engine mode ex ed) True euclidean [[1], [2]] = Inr (Some example_w)"
  by (simp_all add: weights_or_none_def example_engine_def calculate_weights_def
      weight_distances_def cdist_to_def euclidean_def min_max_normalize_def init_kernel_def
      init_kernel_width_def example_w_def)

lemma example_labels:
  "ed = None \<or> ed = Some identity_encoder \<Longrightarrow>
   label_neighborhoods (example_engine mode ex ed) [[[1], [9]], [[1], [2]]] = [[0, 1], [0, 0]]"
  by (auto simp: label_neighborhoods_def example_fields threshold_bb_def identity_encoder_def
      nan_to_num_def)

lemma example_sample:
  assumes "ed = None \<or> ed = Some identity_encoder"
  shows "sample_neighborhoods (example_engine mode ex ed) [1] 2 True euclidean 2 =
     Inr \<lparr>nb_Z_list = [[[1], [9]], [[1], [2]]], nb_Yb_list = [[0, 1], [0, 0]],
          nb_weights_list = [Some example_w, Some example_w],
          nb_Z = Some [[1], [2]], nb_Yb = Some [0, 0]\<rparr>"
  by (simp add: sample_neighborhoods_def example_fields two_neighborhoods_def
      example_labels [OF assms] example_weights loop_var_def)

lemma example_merge_bb:
  "merge_step (example_engine Binary_from_bb ex ed) True euclidean 2 False
     \<lparr>nb_Z_list = [[[1], [9]], [[1], [2]]], nb_Yb_list = [[0, 1], [0, 0]],
      nb_weights_list = [Some example_w, Some example_w],
      nb_Z = Some [[1], [2]], nb_Yb = Some [0, 0]\<rparr> =
   Inr \<lparr>m_superT = ([[1], [2]], [0, 0]), m_fidelity = Fin 1, m_Z = [[1], [2]],
        m_Yb = [0, 0]\<rparr>"
proof -
  have "accuracy_score [0, 0] [0, 0] (Some example_w) = Inr (Fin 1)"
    using example_w_sum by (simp add: accuracy_score_def example_w_values)
  then show ?thesis
    by (simp add: merge_step_def fit_and_score_def example_fields example_weights
        tree_score_def stump_predict_def)
qed

lemma example_merge_nary:
  "merge_step (example_engine Not_binary ex ed) True euclidean 2 False
     \<lparr>nb_Z_list = [[[1], [9]], [[1], [2]]], nb_Yb_list = [[0, 1], [0, 0]],
      nb_weights_list = [Some example_w, Some example_w],
      nb_Z = Some [[1], [2]], nb_Yb = Some [0, 0]\<rparr> =
   Inr \<lparr>m_superT = ([[1], [9]], [0, 1]), m_fidelity = Fin (1 / 4),
        m_Z = [[1], [9], [1], [2]], m_Yb = [0, 1, 0, 0]\<rparr>"
  by (simp add: merge_step_def example_fields example_weights nan_to_num_def first_tree_def
      tree_score_def accuracy_score_def stump_predict_def)

lemma example_merge_nari:
  "merge_step (example_engine Binary_from_nari ex ed) True euclidean 2 False
     \<lparr>nb_Z_list = [[[1], [9]], [[1], [2]]], nb_Yb_list = [[0, 1], [0, 0]],
      nb_weights_list = [Some example_w, Some example_w],
      nb_Z = Some [[1], [2]], nb_Yb = Some [0, 0]\<rparr> =
   Inr \<lparr>m_superT = ([[1], [9]], [0, 1]), m_fidelity = Fin 1,
        m_Z = [[1], [9], [1], [2]], m_Yb = [1, 1, 1, 1]\<rparr>"
proof -
  have "0 < 1 + sqrt (exp (- (16 / 9 :: real))) + (1 + sqrt (exp (- (16 / 9))))"
    using example_w_sum by simp
  then have "accuracy_score [1, 1, 1, 1] [1, 1, 1, 1] (Some (example_w @ example_w)) = Inr (Fin 1)"
    by (simp add: accuracy_score_def example_w_values)
  then show ?thesis
    by (simp add: merge_step_def example_fields example_weights nan_to_num_def first_tree_def
        tree_score_def stump_predict_def)
qed

lemma example_encode:
  "encode_instance (example_engine mode ex None) [1] = (None, [1])"
  "encode_instance (example_engine mode ex (Some identity_encoder)) [1] = (Some [0], [1])"
  by (simp_all add: encode_instance_def example_fields identity_encoder_def threshold_bb_def)

lemma example_check_off:
  "extreme_fidelity_check (example_engine mode False ed) x y t = Inr ()"
  by (simp add: extreme_fidelity_check_def example_fields)

subsection \<open>Claims about the run stabilizer\<close>

text \<open>
  Claim C1 says that the stored fidelity is 1 only if the merged tree agrees with the black
  box on every pooled record. In \<^verbatim>\<open>binary_from_nari\<close> mode the fidelity is the score of
  the tree against its own predictions (lemma \<open>binary_from_nari_fidelity\<close>: it is 1,
  or NaN when a weight is NaN, whatever the black box says). Here the call returns an explanation with fidelity 1 although the tree predicts 1
  for all four pooled records and the black box labels three of them 0.
\<close>

theorem fidelity_one_despite_disagreement:
  "\<not> isl (explain_instance_stable (example_engine Binary_from_nari False None)
            [1] 2 True euclidean 2 5 False)
   \<and> fidelity (projr (explain_instance_stable (example_engine Binary_from_nari False None)
            [1] 2 True euclidean 2 5 False)) = Fin 1
   \<and> tree_predict (example_engine Binary_from_nari False None)
        (dt (projr (explain_instance_stable (example_engine Binary_from_nari False None)
            [1] 2 True euclidean 2 5 False)))
        (concat (multi_generate (example_engine Binary_from_nari False None) [1] 2 2))
      = [1, 1, 1, 1]
   \<and> bb_predict (example_engine Binary_from_nari False None)
        (concat (multi_generate (example_engine Binary_from_nari False None) [1] 2 2))
      = [0, 1, 0, 0]"
proof -
  let ?eng = "example_engine Binary_from_nari False None :: (stump, unit) lorem"
  let ?m = "\<lparr>m_superT = ([[1], [9]], [0, 1]), m_fidelity = Fin 1,
        m_Z = [[1], [9], [1], [2]], m_Yb = [1, 1, 1, 1]\<rparr> :: stump merged"
  have run: "explain_instance_stable ?eng [1] 2 True euclidean 2 5 False = assemble ?eng [1] 5 ?m"
    by (simp add: explain_instance_stable_def example_fields example_encode example_sample
        example_merge_nari example_check_off)
  have p: "tree_predict ?eng (m_superT ?m) (m_Z ?m) \<noteq> []" "m_Yb ?m \<noteq> []"
    by (simp_all add: example_fields stump_predict_def)
  note a = assemble_Inr [OF p, of "[1]" 5]
  have "tree_predict ?eng ([[1], [9]], [0, 1]) (concat (multi_generate ?eng [1] 2 2)) = [1, 1, 1, 1]"
    by (simp add: example_fields two_neighborhoods_def stump_predict_def)
  moreover have "bb_predict ?eng (concat (multi_generate ?eng [1] 2 2)) = [0, 1, 0, 0]"
    by (simp add: example_fields two_neighborhoods_def threshold_bb_def)
  ultimately show ?thesis
    using a by (simp add: run)
qed

text \<open>
  Claim C2 says that \<^verbatim>\<open>binary_from_bb\<close> fits its tree on the concatenation of all
  neighborhoods. Without a discretizer the locals \<open>Z\<close> and \<open>Yb\<close> are what the loops left
  in them (lemmas \<open>sample_neighborhoods_locals\<close> and \<open>binary_from_bb_training_data\<close>).
  With two runs the sampler returns \<open>[[1], [9]]\<close> and \<open>[[1], [2]]\<close>; the returned tree is the one learnt on the second neighborhood and its labels alone (the example
  provider's tree is its training data), not on the four pooled records.
\<close>

theorem binary_from_bb_fits_last_neighborhood:
  "\<not> isl (explain_instance_stable (example_engine Binary_from_bb False None)
            [1] 2 True euclidean 2 5 False)
   \<and> dt (projr (explain_instance_stable (example_engine Binary_from_bb False None)
            [1] 2 True euclidean 2 5 False))
      = learn_local_decision_tree (example_engine Binary_from_bb False None)
          [[1], [2]] [0, 0] (Some example_w) None
   \<and> multi_generate (example_engine Binary_from_bb False None) [1] 2 2
      = [[[1], [9]], [[1], [2]]]
   \<and> learn_local_decision_tree (example_engine Binary_from_bb False None)
          [[1], [2]] [0, 0] (Some example_w) None
      = ([[1], [2]], [0, 0])
   \<and> concat (multi_generate (example_engine Binary_from_bb False None) [1] 2 2)
      = [[1], [9], [1], [2]]"
proof -
  let ?eng = "example_engine Binary_from_bb False None :: (stump, unit) lorem"
  let ?m = "\<lparr>m_superT = ([[1], [2]], [0, 0]), m_fidelity = Fin 1, m_Z = [[1], [2]],
        m_Yb = [0, 0]\<rparr> :: stump merged"
  have run: "explain_instance_stable ?eng [1] 2 True euclidean 2 5 False = assemble ?eng [1] 5 ?m"
    by (simp add: explain_instance_stable_def example_fields example_encode example_sample
        example_merge_bb example_check_off)
  have p: "tree_predict ?eng (m_superT ?m) (m_Z ?m) \<noteq> []" "m_Yb ?m \<noteq> []"
    by (simp_all add: example_fields stump_predict_def)
  note a = assemble_Inr [OF p, of "[1]" 5]
  show ?thesis
    using a by (simp add: run example_fields two_neighborhoods_def)
qed

text \<open>
  The n-ary and \<^verbatim>\<open>binary_from_nari\<close> modes do what claim C3 says: with extreme fidelity
  enabled, once the neighborhoods are sampled and merged into a tree whose prediction for
  the (encoded) instance differs from the black box's prediction for the instance, the
  call ends with an exception. (With an encoder it is the mismatch exception; without
  one, the check fails on the unassigned \<open>y\<close>.)
\<close>

lemma nary_mismatch_raises:
  assumes "extreme_fidelity eng"
    and "binary eng = Not_binary \<or> binary eng = Binary_from_nari"
    and "\<not> multi_label eng"
    and "encode_instance eng x = (y, x')"
    and "sample_neighborhoods eng x' samples use_weights metric runs = Inr nb"
    and "merge_step eng use_weights metric runs prune_tree nb = Inr m"
    and "tree_predict eng (m_superT m) [x'] \<noteq> bb_predict eng [x]"
  shows "explain_instance_stable eng x samples use_weights metric runs exemplar_num prune_tree =
           Inl (if encdec eng = None then NameError ''y'' else Surrogate_mismatch)"
proof (cases "encdec eng")
  case None
  with assms(4) have y: "y = None" by (simp add: encode_instance_def)
  have "extreme_fidelity_check eng x' y (m_superT m) = Inl (NameError ''y'')"
    using assms(1,2) y by (simp add: check_made)
  then show ?thesis
    using assms(3,4,5,6) None by (simp add: explain_instance_stable_def)
next
  case (Some ed)
  with assms(4) have y: "y = Some (bb_predict eng [x])"
    by (auto simp: encode_instance_def Let_def)
  have "extreme_fidelity_check eng x' y (m_superT m) = Inl Surrogate_mismatch"
    using assms(1,2,7) y by (simp add: check_made)
  then show ?thesis
    using assms(3,4,5,6) Some by (simp add: explain_instance_stable_def)
qed

lemma nary_mismatch_raises_example:
  "explain_instance_stable (example_engine Not_binary True (Some identity_encoder))
     [1] 2 True euclidean 2 5 False = Inl Surrogate_mismatch"
proof -
  let ?eng = "example_engine Not_binary True (Some identity_encoder) :: (stump, unit) lorem"
  have h1: "extreme_fidelity ?eng" by (simp add: example_fields)
  have h2: "binary ?eng = Not_binary \<or> binary ?eng = Binary_from_nari"
    by (simp add: example_fields)
  have h3: "\<not> multi_label ?eng" by (simp add: example_fields)
  have h4: "encode_instance ?eng [1] = (Some [0], [1])" by (rule example_encode)
  have h5: "sample_neighborhoods ?eng [1] 2 True euclidean 2 =
     Inr \<lparr>nb_Z_list = [[[1], [9]], [[1], [2]]], nb_Yb_list = [[0, 1], [0, 0]],
          nb_weights_list = [Some example_w, Some example_w],
          nb_Z = Some [[1], [2]], nb_Yb = Some [0, 0]\<rparr>"
    by (rule example_sample) simp
  have h6: "merge_step ?eng True euclidean 2 False
     \<lparr>nb_Z_list = [[[1], [9]], [[1], [2]]], nb_Yb_list = [[0, 1], [0, 0]],
      nb_weights_list = [Some example_w, Some example_w],
      nb_Z = Some [[1], [2]], nb_Yb = Some [0, 0]\<rparr> =
     Inr \<lparr>m_superT = ([[1], [9]], [0, 1]), m_fidelity = Fin (1 / 4),
        m_Z = [[1], [9], [1], [2]], m_Yb = [0, 1, 0, 0]\<rparr>"
    by (rule example_merge_nary)
  have h7: "tree_predict ?eng
      (m_superT \<lparr>m_superT = ([[1], [9]], [0, 1]), m_fidelity = Fin (1 / 4),
        m_Z = [[1], [9], [1], [2]], m_Yb = [0, 1, 0, 0]\<rparr>) [[1]] \<noteq> bb_predict ?eng [[1]]"
    by (simp add: example_fields stump_predict_def threshold_bb_def)
  from nary_mismatch_raises [OF h1 h2 h3 h4 h5 h6 h7, of 5]
  show ?thesis by (simp add: example_fields)
qed

text \<open>
  Claim C3 says that with extreme fidelity enabled a mismatch ends the call in every merge
  mode. The check of lines 301--304 is nested in the \<^verbatim>\<open>else\<close> branch of line 272, so
  \<^verbatim>\<open>binary_from_bb\<close> and \<^verbatim>\<open>binary_from_dts\<close> never run it (lemma \<open>check_not_made\<close>),
  while the n-ary branch does (lemma \<open>nary_mismatch_raises\<close>). Here, in
  \<^verbatim>\<open>binary_from_dts\<close> mode with extreme fidelity enabled, the call returns an explanation
  although the merged tree predicts 1 for the instance and the black box predicts 0.
\<close>

theorem extreme_fidelity_unchecked_in_binary_from_dts:
  "extreme_fidelity (example_engine Binary_from_dts True (Some identity_encoder))
   \<and> \<not> isl (explain_instance_stable (example_engine Binary_from_dts True (Some identity_encoder))
            [1] 2 False euclidean 2 5 False)
   \<and> tree_predict (example_engine Binary_from_dts True (Some identity_encoder))
        (dt (projr (explain_instance_stable
            (example_engine Binary_from_dts True (Some identity_encoder))
            [1] 2 False euclidean 2 5 False))) [[1]] = [1]
   \<and> bb_predict (example_engine Binary_from_dts True (Some identity_encoder)) [[1]] = [0]"
proof -
  let ?eng = "example_engine Binary_from_dts True (Some identity_encoder) :: (stump, unit) lorem"
  let ?m = "\<lparr>m_superT = ([[1], [9], [1], [2]], [0, 1, 0, 0]), m_fidelity = Fin (1 / 4),
        m_Z = [[1], [9], [1], [2]], m_Yb = [0, 1, 0, 0]\<rparr> :: stump merged"
  have s: "sample_neighborhoods ?eng [1] 2 False euclidean 2 =
     Inr \<lparr>nb_Z_list = [[[1], [9]], [[1], [2]]], nb_Yb_list = [[0, 1], [0, 0]],
          nb_weights_list = [None, None], nb_Z = Some [[1], [2]], nb_Yb = Some [0, 0]\<rparr>"
    by (simp add: sample_neighborhoods_def example_fields two_neighborhoods_def
        example_labels weights_or_none_def loop_var_def)
  have m: "merge_step ?eng False euclidean 2 False
     \<lparr>nb_Z_list = [[[1], [9]], [[1], [2]]], nb_Yb_list = [[0, 1], [0, 0]],
      nb_weights_list = [None, None], nb_Z = Some [[1], [2]], nb_Yb = Some [0, 0]\<rparr> = Inr ?m"
    by (simp add: merge_step_def fit_and_score_def example_fields weights_or_none_def
        nan_to_num_def tree_score_def accuracy_score_def stump_predict_def Let_def)
  have c: "extreme_fidelity_check ?eng x y t = Inr ()" for x y t
    by (rule check_not_made) (simp add: example_fields)
  have run: "explain_instance_stable ?eng [1] 2 False euclidean 2 5 False = assemble ?eng [1] 5 ?m"
    by (simp add: explain_instance_stable_def example_fields example_encode s m c)
  have p: "tree_predict ?eng (m_superT ?m) (m_Z ?m) \<noteq> []" "m_Yb ?m \<noteq> []"
    by (simp_all add: example_fields stump_predict_def)
  note a = assemble_Inr [OF p, of "[1]" 5]
  show ?thesis
    using a by (simp add: run example_fields stump_predict_def threshold_bb_def)
qed

text \<open>
  Claim C10. With extreme fidelity enabled in the default n-ary mode: without an encoder
  \<open>y\<close> is never assigned, the call never returns an explanation, and whenever sampling and
  merging succeed it ends with the \<^verbatim>\<open>NameError\<close> for \<open>y\<close> raised by the check; with an
  encoder \<open>y\<close> is the black box's prediction for the instance and the call never ends
  with that \<^verbatim>\<open>NameError\<close>.
\<close>

theorem extreme_fidelity_needs_encoder:
  assumes "extreme_fidelity eng" and "binary eng = Not_binary" and "\<not> multi_label eng"
  shows "(encdec eng = None \<longrightarrow>
            fst (encode_instance eng x) = None
          \<and> isl (explain_instance_stable eng x samples use_weights metric runs exemplar_num
                   prune_tree)
          \<and> (\<forall>nb m. sample_neighborhoods eng x samples use_weights metric runs = Inr nb
                 \<and> merge_step eng use_weights metric runs prune_tree nb = Inr m \<longrightarrow>
               explain_instance_stable eng x samples use_weights metric runs exemplar_num
                 prune_tree = Inl (NameError ''y'')))
       \<and> (encdec eng \<noteq> None \<longrightarrow>
            fst (encode_instance eng x) = Some (bb_predict eng [x])
          \<and> explain_instance_stable eng x samples use_weights metric runs exemplar_num
              prune_tree \<noteq> Inl (NameError ''y''))"
proof (intro conjI impI)
  assume n: "encdec eng = None"
  then have enc: "encode_instance eng x = (None, x)" by (simp add: encode_instance_def)
  then show "fst (encode_instance eng x) = None" by simp
  have chk: "extreme_fidelity_check eng x None t = Inl (NameError ''y'')" for t
    using assms(1,2) by (simp add: extreme_fidelity_check_def)
  show "isl (explain_instance_stable eng x samples use_weights metric runs exemplar_num prune_tree)"
    using assms(3) by (simp add: explain_instance_stable_def enc chk split: sum.splits)
  show "\<forall>nb m. sample_neighborhoods eng x samples use_weights metric runs = Inr nb
          \<and> merge_step eng use_weights metric runs prune_tree nb = Inr m \<longrightarrow>
        explain_instance_stable eng x samples use_weights metric runs exemplar_num prune_tree
          = Inl (NameError ''y'')"
    using assms(3) by (simp add: explain_instance_stable_def enc chk)
next
  assume s: "encdec eng \<noteq> None"
  then obtain ed where ed: "encdec eng = Some ed" by auto
  then have enc: "encode_instance eng x = (Some (bb_predict eng [x]), enc ed x (bb_predict eng [x]))"
    by (simp add: encode_instance_def Let_def)
  then show "fst (encode_instance eng x) = Some (bb_predict eng [x])" by simp
  have chk: "extreme_fidelity_check eng x' (Some yv) t \<noteq> Inl (NameError ''y'')" for x' yv t
    by (simp add: extreme_fidelity_check_def Let_def)
  have bb: "binary eng \<noteq> Binary_from_bb" using assms(2) by simp
  show "explain_instance_stable eng x samples use_weights metric runs exemplar_num prune_tree
          \<noteq> Inl (NameError ''y'')"
  proof
    assume a: "explain_instance_stable eng x samples use_weights metric runs exemplar_num
        prune_tree = Inl (NameError ''y'')"
    let ?x = "enc ed x (bb_predict eng [x])"
    show False
    proof (cases "sample_neighborhoods eng ?x samples use_weights metric runs")
      case (Inl e)
      with a assms(3) have "e = NameError ''y''"
        by (simp add: explain_instance_stable_def enc)
      with sample_neighborhoods_Inl [OF Inl] show False by simp
    next
      case nb: (Inr nb)
      show False
      proof (cases "merge_step eng use_weights metric runs prune_tree nb")
        case (Inl e)
        with a assms(3) nb have "e = NameError ''y''"
          by (simp add: explain_instance_stable_def enc)
        with merge_step_Inl [OF Inl bb] show False by simp
      next
        case m: (Inr m)
        show False
        proof (cases "extreme_fidelity_check eng ?x (Some (bb_predict eng [x])) (m_superT m)")
          case (Inl e)
          with a assms(3) nb m have "e = NameError ''y''"
            by (simp add: explain_instance_stable_def enc)
          with Inl chk show False by simp
        next
          case (Inr u)
          with a assms(3) nb m have "assemble eng ?x exemplar_num m = Inl (NameError ''y'')"
            by (simp add: explain_instance_stable_def enc)
          then show False by (auto dest: assemble_Inl)
        qed
      qed
    qed
  qed
qed

theorem extreme_fidelity_needs_encoder_witness:
  "extreme_fidelity (example_engine Not_binary True None)
   \<and> binary (example_engine Not_binary True None) = Not_binary
   \<and> \<not> multi_label (example_engine Not_binary True None)
   \<and> encdec (example_engine Not_binary True None) = None
   \<and> explain_instance_stable (example_engine Not_binary True None)
       [1] 2 True euclidean 2 5 False = Inl (NameError ''y'')
   \<and> explain_instance_stable (example_engine Not_binary True (Some identity_encoder))
       [1] 2 True euclidean 2 5 False \<noteq> Inl (NameError ''y'')"
proof -
  let ?eng = "example_engine Not_binary True None :: (stump, unit) lorem"
  let ?eng' = "example_engine Not_binary True (Some identity_encoder) :: (stump, unit) lorem"
  have h1: "extreme_fidelity ?eng" by (simp add: example_fields)
  have h2: "binary ?eng = Not_binary" by (simp add: example_fields)
  have h3: "\<not> multi_label ?eng" by (simp add: example_fields)
  have h4: "encdec ?eng = None" by (simp add: example_fields)
  have s: "sample_neighborhoods ?eng [1] 2 True euclidean 2 =
     Inr \<lparr>nb_Z_list = [[[1], [9]], [[1], [2]]], nb_Yb_list = [[0, 1], [0, 0]],
          nb_weights_list = [Some example_w, Some example_w],
          nb_Z = Some [[1], [2]], nb_Yb = Some [0, 0]\<rparr>"
    by (rule example_sample) simp
  note m = example_merge_nary [of True None]
  from extreme_fidelity_needs_encoder [OF h1 h2 h3, of "[1]" 2 True euclidean 2 5 False] h4 s m
  have a: "explain_instance_stable ?eng [1] 2 True euclidean 2 5 False = Inl (NameError ''y'')"
    by blast
  have h1': "extreme_fidelity ?eng'" by (simp add: example_fields)
  have h2': "binary ?eng' = Not_binary" by (simp add: example_fields)
  have h3': "\<not> multi_label ?eng'" by (simp add: example_fields)
  have h4': "encdec ?eng' \<noteq> None" by (simp add: example_fields)
  from extreme_fidelity_needs_encoder [OF h1' h2' h3', of "[1]" 2 True euclidean 2 5 False] h4'
  have b: "explain_instance_stable ?eng' [1] 2 True euclidean 2 5 False \<noteq> Inl (NameError ''y'')"
    by blast
  from h1 h2 h3 h4 a b show ?thesis by simp
qed

end
